theory Spec2Isabelle
  imports Complex_Main
begin

section \<open>JavaScript values and plain objects\<close>

text \<open>
  The route handler \<^verbatim>\<open>src/app/api/dashboard-data/route.ts\<close> keeps two lookup tables in
  plain object literals (\<^verbatim>\<open>stageMapping\<close> and \<^verbatim>\<open>serviceCounts\<close>). A property read on a
  plain object consults the object's own properties and then \<^verbatim>\<open>Object.prototype\<close>, and
  \<^verbatim>\<open>Object.keys\<close> lists array-index keys before all other keys. Both are part of what
  the code computes, so the model has them.

  \<^item> \<open>JStr\<close> is a string, \<open>JNum\<close> a non-negative integer number (the only numbers these
    tables hold are counts).
  \<^item> \<open>JProto k\<close> is the member named \<open>k\<close> that every plain object inherits from
    \<^verbatim>\<open>Object.prototype\<close>: a built-in function, and for \<^verbatim>\<open>__proto__\<close> the prototype object
    itself. None of them is a string.
\<close>

datatype jsval = JStr string | JNum nat | JProto string

text \<open>The property names of \<^verbatim>\<open>Object.prototype\<close> (Node.js / V8).\<close>

definition objectPrototypeKeys :: "string list" where
  "objectPrototypeKeys =
     [''constructor'', ''__defineGetter__'', ''__defineSetter__'', ''hasOwnProperty'',
      ''__lookupGetter__'', ''__lookupSetter__'', ''isPrototypeOf'',
      ''propertyIsEnumerable'', ''toString'', ''valueOf'', ''__proto__'',
      ''toLocaleString'']"

text \<open>JavaScript truthiness: the empty string and 0 are falsy, every object is truthy.\<close>

fun truthy :: "jsval \<Rightarrow> bool" where
  "truthy (JStr s) = (s \<noteq> [])"
| "truthy (JNum n) = (n \<noteq> 0)"
| "truthy (JProto k) = True"


text \<open>
  A plain object: its own properties in creation order. \<open>getProp\<close> is the read
  \<^verbatim>\<open>obj[k]\<close>; \<open>None\<close> is \<^verbatim>\<open>undefined\<close>.
\<close>

type_synonym jsobject = "(string \<times> jsval) list"

definition getProp :: "jsobject \<Rightarrow> string \<Rightarrow> jsval option" where
  "getProp obj k =
     (case map_of obj k of
        Some v \<Rightarrow> Some v
      | None \<Rightarrow> if k \<in> set objectPrototypeKeys then Some (JProto k) else None)"

section \<open>Status classification\<close>

definition stageMapping :: jsobject where
  "stageMapping =
     [(''1'', JStr ''NEW''),
      (''2'', JStr ''BACKLOG''),
      (''3'', JStr ''RESOURCE_SUPPORT''),
      (''4'', JStr ''CLOSED''),
      (''257285392'', JStr ''WAITING_FOR_RESPONSE''),
      (''257285393'', JStr ''COMPLETED''),
      (''1686843097'', JStr ''IN_PROCESS_STAFFMARK''),
      (''1687677633'', JStr ''EMPLOYMENT_SUPPORT''),
      (''999098012'', JStr ''IN_PROCESS_OSW''),
      (''1746656967'', JStr ''ARCHIVED'')]"

text \<open>
  \<^verbatim>\<open>if (!stageId) return 'UNKNOWN'; return stageMapping[stageId] || `STAGE_${stageId}`;\<close>
\<close>

definition getStatusFromStage :: "string option \<Rightarrow> jsval" where
  "getStatusFromStage stageId =
     (case stageId of
        None \<Rightarrow> JStr ''UNKNOWN''
      | Some s \<Rightarrow>
          if s = [] then JStr ''UNKNOWN''
          else (case getProp stageMapping s of
                  Some v \<Rightarrow> if truthy v then v else JStr (''STAGE_'' @ s)
                | None \<Rightarrow> JStr (''STAGE_'' @ s)))"

section \<open>Tickets\<close>

text \<open>
  The attribute bag of a ticket, with the fields the handler reads. A ticket as the
  fetch builds it holds whatever \<^verbatim>\<open>properties\<close> the CRM sent, possibly nothing, so the
  ticket record is parametric in the type of that field: the declared interface
  \<^verbatim>\<open>HubSpotTicket\<close> is \<open>ticket_properties HubSpotTicket\<close>.
\<close>

record ticket_properties =
  hs_pipeline_stage :: "string option"
  createdate :: "string option"
  service_provided :: "string option"
  crisis_wish :: "string option"
  birthday :: "string option"

record 'p HubSpotTicket =
  ticket_id :: string
  status :: jsval
  created_at :: "string option"
  properties :: 'p

record DashboardStats =
  open_tickets :: nat
  new_tickets_this_week :: nat
  osw_count :: nat
  staffmark_count :: nat
  closed_tickets :: nat

section \<open>The runtime: dates, time zone and numbers\<close>

text \<open>
  What the handler takes from the language and its library is a parameter of the model.
  \<^item> \<open>parseDate s\<close> is \<^verbatim>\<open>new Date(s).getTime()\<close>, in milliseconds since the epoch; \<open>None\<close>
    is \<^verbatim>\<open>NaN\<close>, the time value of an Invalid Date.
  \<^item> \<open>toISODate t\<close> is \<^verbatim>\<open>toISOString().split('T')[0]\<close> of a valid date.
  \<^item> The time zone, as the language defines local time: \<open>tzaOfUTC t\<close> is the offset of
    local time from UTC, in milliseconds, in force at the instant \<open>t\<close>, and \<open>tzaOfLocal l\<close>
    is the offset with which the local time value \<open>l\<close> is read (at a daylight-saving
    change a local time that occurs twice or not at all is read with the offset before
    the change). The offsets may change with the date.
  \<^item> Numbers are the values of a type \<open>'n\<close>: \<open>parseFloat s\<close> is \<^verbatim>\<open>parseFloat(s)\<close>, \<open>isNaN\<close> is
    \<^verbatim>\<open>isNaN\<close>, \<open>numZero\<close> is the literal \<^verbatim>\<open>0\<close>, \<open>numAdd\<close> is \<^verbatim>\<open>+\<close> on numbers (the addition of
    doubles, with its rounding, infinities and \<^verbatim>\<open>NaN\<close>), \<open>numLessEq\<close> is \<^verbatim>\<open><=\<close> and
    \<open>numIsFinite\<close> is \<^verbatim>\<open>Number.isFinite\<close>.
\<close>

record 'n js_runtime =
  parseDate :: "string \<Rightarrow> int option"
  toISODate :: "int \<Rightarrow> string"
  tzaOfUTC :: "int \<Rightarrow> int"
  tzaOfLocal :: "int \<Rightarrow> int"
  parseFloat :: "string \<Rightarrow> 'n"
  isNaN :: "'n \<Rightarrow> bool"
  numZero :: 'n
  numAdd :: "'n \<Rightarrow> 'n \<Rightarrow> 'n"
  numLessEq :: "'n \<Rightarrow> 'n \<Rightarrow> bool"
  numIsFinite :: "'n \<Rightarrow> bool"

definition msPerDay :: int where
  "msPerDay = 86400000"

text \<open>
  \<^verbatim>\<open>LocalTime(t)\<close>: the local time value of the instant \<open>t\<close>; and \<^verbatim>\<open>UTC(l)\<close>: the instant
  of the local time value \<open>l\<close>.
\<close>

definition localTime :: "('n, 'r) js_runtime_scheme \<Rightarrow> int \<Rightarrow> int" where
  "localTime rt t = t + tzaOfUTC rt t"

definition toUTC :: "('n, 'r) js_runtime_scheme \<Rightarrow> int \<Rightarrow> int" where
  "toUTC rt l = l - tzaOfLocal rt l"

text \<open>The number of the local calendar day that holds instant \<open>t\<close> (day 0 is 1970-01-01).\<close>

definition localDay :: "('n, 'r) js_runtime_scheme \<Rightarrow> int \<Rightarrow> int" where
  "localDay rt t = localTime rt t div msPerDay"

text \<open>\<^verbatim>\<open>getDay()\<close>: the day of the week of the local day, 0 is Sunday; 1970-01-01 was a Thursday.\<close>

definition getDay :: "('n, 'r) js_runtime_scheme \<Rightarrow> int \<Rightarrow> int" where
  "getDay rt t = (localDay rt t + 4) mod 7"

text \<open>
  \<^verbatim>\<open>d.setDate(d.getDate() - k)\<close>: the local calendar day moves \<open>k\<close> days back (into the
  previous month where needed), the local time within the day stays, and the new local
  time value is converted to an instant.
\<close>

definition setDateBack :: "('n, 'r) js_runtime_scheme \<Rightarrow> int \<Rightarrow> int \<Rightarrow> int" where
  "setDateBack rt t k =
     toUTC rt ((localDay rt t - k) * msPerDay + localTime rt t mod msPerDay)"

text \<open>
  \<^verbatim>\<open>d.setHours(0, 0, 0, 0)\<close>: the local time value 00:00:00.000 of the same local day,
  converted to an instant.
\<close>

definition setHoursZero :: "('n, 'r) js_runtime_scheme \<Rightarrow> int \<Rightarrow> int" where
  "setHoursZero rt t = toUTC rt (localDay rt t * msPerDay)"

text \<open>
  \<^verbatim>\<open>startOfWeek.setDate(today.getDate() - today.getDay()); startOfWeek.setHours(0, 0, 0, 0)\<close>
\<close>

definition startOfWeek :: "('n, 'r) js_runtime_scheme \<Rightarrow> int \<Rightarrow> int" where
  "startOfWeek rt today = setHoursZero rt (setDateBack rt today (getDay rt today))"

section \<open>Ticket aggregator\<close>

definition openStatuses :: "jsval list" where
  "openStatuses =
     [JStr ''NEW'', JStr ''BACKLOG'', JStr ''RESOURCE_SUPPORT'', JStr ''EMPLOYMENT_SUPPORT'',
      JStr ''IN_PROCESS_STAFFMARK'', JStr ''IN_PROCESS_OSW'', JStr ''WAITING_FOR_RESPONSE'']"

definition closedStatuses :: "jsval list" where
  "closedStatuses = [JStr ''CLOSED'', JStr ''COMPLETED'', JStr ''ARCHIVED'']"

text \<open>
  The predicate of the \<^verbatim>\<open>newTicketsThisWeek\<close> filter: a falsy \<^verbatim>\<open>created_at\<close> is rejected,
  and a comparison with the \<^verbatim>\<open>NaN\<close> of an Invalid Date is false.
\<close>

definition createdThisWeek ::
  "('n, 'r) js_runtime_scheme \<Rightarrow> int \<Rightarrow> ('p, 'z) HubSpotTicket_scheme \<Rightarrow> bool" where
  "createdThisWeek rt weekStart ticket =
     (case created_at ticket of
        None \<Rightarrow> False
      | Some s \<Rightarrow>
          if s = [] then False
          else (case parseDate rt s of
                  None \<Rightarrow> False
                | Some createdDate \<Rightarrow> weekStart \<le> createdDate))"

definition generateDashboardStats ::
  "('n, 'r) js_runtime_scheme \<Rightarrow> int \<Rightarrow> ('p, 'z) HubSpotTicket_scheme list \<Rightarrow> DashboardStats" where
  "generateDashboardStats rt today tickets =
     (if tickets = [] then
        \<lparr>open_tickets = 0, new_tickets_this_week = 0, osw_count = 0,
         staffmark_count = 0, closed_tickets = 0\<rparr>
      else
        \<lparr>open_tickets = length (filter (\<lambda>ticket. status ticket \<in> set openStatuses) tickets),
         new_tickets_this_week =
           length (filter (createdThisWeek rt (startOfWeek rt today)) tickets),
         osw_count = length (filter (\<lambda>ticket. status ticket = JStr ''IN_PROCESS_OSW'') tickets),
         staffmark_count =
           length (filter (\<lambda>ticket. status ticket = JStr ''IN_PROCESS_STAFFMARK'') tickets),
         closed_tickets = length (filter (\<lambda>ticket. status ticket \<in> set closedStatuses) tickets)\<rparr>)"

section \<open>Chart data builder\<close>

text \<open>
  The charts are modelled as the objects \<^verbatim>\<open>generateCharts\<close> builds, before
  \<^verbatim>\<open>JSON.stringify\<close>, with their data series and titles; colours, sizes and the
  other constant layout options are left out, and so are the \<^verbatim>\<open>text\<close> labels, which
  repeat the series.
\<close>

text \<open>What the handler can raise: an \<^verbatim>\<open>Error\<close> object with its message, or anything else.\<close>

datatype thrown = ErrorObj string | NonError

text \<open>The decimal text of a count, as in a template literal.\<close>

definition digitChar :: "nat \<Rightarrow> char" where
  "digitChar d =
     (if d = 0 then CHR ''0'' else if d = 1 then CHR ''1'' else if d = 2 then CHR ''2''
      else if d = 3 then CHR ''3'' else if d = 4 then CHR ''4'' else if d = 5 then CHR ''5''
      else if d = 6 then CHR ''6'' else if d = 7 then CHR ''7'' else if d = 8 then CHR ''8''
      else CHR ''9'')"

fun numberToString :: "nat \<Rightarrow> string" where
  "numberToString n =
     (if n < 10 then [digitChar n]
      else numberToString (n div 10) @ [digitChar (n mod 10)])"

declare numberToString.simps [simp del]

subsection \<open>Resource-support snapshot\<close>

record resource_chart =
  resource_x :: "string list"
  resource_y :: "nat list"

definition resourceChart :: "('p, 'z) HubSpotTicket_scheme list \<Rightarrow> resource_chart" where
  "resourceChart tickets =
     (let resourceSupportCount =
            length (filter (\<lambda>ticket. status ticket = JStr ''RESOURCE_SUPPORT'') tickets);
          waitingResponseCount =
            length (filter (\<lambda>ticket. status ticket = JStr ''WAITING_FOR_RESPONSE'') tickets)
      in \<lparr>resource_x = [''Resource'', ''Waiting''],
          resource_y = [resourceSupportCount, waitingResponseCount]\<rparr>)"

subsection \<open>Service distribution\<close>

text \<open>
  String concatenation turns an inherited member into text first: a built-in function
  prints as its native-code stub (the constructor is the function \<^verbatim>\<open>Object\<close>), the
  prototype object as \<^verbatim>\<open>[object Object]\<close>.
\<close>

definition nativeText :: "string \<Rightarrow> string" where
  "nativeText k =
     (if k = ''__proto__'' then ''[object Object]''
      else ''function '' @ (if k = ''constructor'' then ''Object'' else k)
           @ ''() { [native code] }'')"

text \<open>\<^verbatim>\<open>(v || 0) + 1\<close> for the value \<open>v\<close> of a property read.\<close>

fun orZeroPlusOne :: "jsval option \<Rightarrow> jsval" where
  "orZeroPlusOne None = JNum 1"
| "orZeroPlusOne (Some (JNum n)) = JNum (n + 1)"
| "orZeroPlusOne (Some (JStr s)) = (if s = [] then JNum 1 else JStr (s @ ''1''))"
| "orZeroPlusOne (Some (JProto k)) = JStr (nativeText k @ ''1'')"

text \<open>
  The write \<^verbatim>\<open>obj[k] = v\<close> of a primitive \<open>v\<close>: an own property keeps its place, a new
  one is created last, also over an inherited member of the same name. The name
  \<^verbatim>\<open>__proto__\<close> is an accessor whose setter ignores a primitive.
\<close>

fun setOwn :: "jsobject \<Rightarrow> string \<Rightarrow> jsval \<Rightarrow> jsobject" where
  "setOwn [] k v = [(k, v)]"
| "setOwn ((k', v') # obj) k v =
     (if k' = k then (k, v) # obj else (k', v') # setOwn obj k v)"

definition setProp :: "jsobject \<Rightarrow> string \<Rightarrow> jsval \<Rightarrow> jsobject" where
  "setProp obj k v = (if k = ''__proto__'' then obj else setOwn obj k v)"

text \<open>
  The order of \<^verbatim>\<open>Object.keys\<close> and \<^verbatim>\<open>Object.values\<close>: the own keys that are array
  indices (canonical decimal numerals below \<open>2^32 - 1\<close>) in ascending numeric order,
  then the other keys in creation order.
\<close>

definition isDigit :: "char \<Rightarrow> bool" where
  "isDigit c = (48 \<le> (of_char c :: nat) \<and> (of_char c :: nat) \<le> 57)"

definition decimalValue :: "string \<Rightarrow> nat" where
  "decimalValue s = foldl (\<lambda>acc c. 10 * acc + (of_char c - 48)) 0 s"

definition isArrayIndex :: "string \<Rightarrow> bool" where
  "isArrayIndex s =
     (s \<noteq> [] \<and> list_all isDigit s \<and> (length s = 1 \<or> hd s \<noteq> CHR ''0'')
      \<and> decimalValue s < 4294967295)"

definition objectEntries :: "jsobject \<Rightarrow> (string \<times> jsval) list" where
  "objectEntries obj =
     sort_key (\<lambda>p. decimalValue (fst p)) (filter (\<lambda>p. isArrayIndex (fst p)) obj)
     @ filter (\<lambda>p. \<not> isArrayIndex (fst p)) obj"

definition objectKeys :: "jsobject \<Rightarrow> string list" where
  "objectKeys obj = map fst (objectEntries obj)"

definition objectValues :: "jsobject \<Rightarrow> jsval list" where
  "objectValues obj = map snd (objectEntries obj)"

text \<open>One round of the \<^verbatim>\<open>forEach\<close> that fills \<^verbatim>\<open>serviceCounts\<close>.\<close>

definition countService :: "ticket_properties HubSpotTicket \<Rightarrow> jsobject \<Rightarrow> jsobject" where
  "countService ticket counts =
     (case service_provided (properties ticket) of
        None \<Rightarrow> counts
      | Some service \<Rightarrow>
          if service \<noteq> [] \<and> service \<noteq> ''null'' \<and> service \<noteq> ''''
          then setProp counts service (orZeroPlusOne (getProp counts service))
          else counts)"

definition serviceCounts :: "ticket_properties HubSpotTicket list \<Rightarrow> jsobject" where
  "serviceCounts tickets = fold countService tickets []"

record service_chart =
  service_labels :: "string list"
  service_values :: "jsval list"

definition serviceChart :: "ticket_properties HubSpotTicket list \<Rightarrow> service_chart" where
  "serviceChart tickets =
     \<lparr>service_labels = objectKeys (serviceCounts tickets),
      service_values = objectValues (serviceCounts tickets)\<rparr>"

subsection \<open>Crisis-wish running tally\<close>

text \<open>
  An entry of \<^verbatim>\<open>crisisData\<close> is the time value of \<^verbatim>\<open>new Date(createdAt)\<close> (\<open>None\<close> for an
  Invalid Date: the constructor does not raise) and the parsed amount. Neither
  \<^verbatim>\<open>parseFloat\<close> nor the constructor raises, so the \<^verbatim>\<open>catch\<close> never runs.
\<close>

definition collectCrisis ::
  "'n js_runtime \<Rightarrow> ticket_properties HubSpotTicket \<Rightarrow> (int option \<times> 'n) list
     \<Rightarrow> (int option \<times> 'n) list" where
  "collectCrisis rt ticket crisisData =
     (case crisis_wish (properties ticket) of
        None \<Rightarrow> crisisData
      | Some crisisWish \<Rightarrow>
          (case created_at ticket of
             None \<Rightarrow> crisisData
           | Some createdAt \<Rightarrow>
               if crisisWish \<noteq> [] \<and> createdAt \<noteq> [] then
                 (let amount = parseFloat rt crisisWish
                  in if \<not> isNaN rt amount
                     then crisisData @ [(parseDate rt createdAt, amount)]
                     else crisisData)
               else crisisData))"

definition crisisData ::
  "'n js_runtime \<Rightarrow> ticket_properties HubSpotTicket list \<Rightarrow> (int option \<times> 'n) list" where
  "crisisData rt tickets = fold (collectCrisis rt) tickets []"

record 'n crisis_chart =
  crisis_dates :: "string list"
  runningCounts :: "nat list"
  runningTotals :: "'n list"

text \<open>
  The \<^verbatim>\<open>forEach\<close> over the sorted entries, with its index and the \<^verbatim>\<open>runningTotal\<close>
  variable: \<^verbatim>\<open>runningTotal += item.amount\<close> is the addition of numbers.
\<close>

fun tally ::
  "'n js_runtime \<Rightarrow> (int \<times> 'n) list \<Rightarrow> nat \<Rightarrow> 'n \<Rightarrow> 'n crisis_chart \<Rightarrow> 'n crisis_chart" where
  "tally rt [] index runningTotal chart = chart"
| "tally rt (item # items) index runningTotal chart =
     tally rt items (index + 1) (numAdd rt runningTotal (snd item))
       (chart\<lparr>runningCounts := runningCounts chart @ [index + 1],
              runningTotals := runningTotals chart @ [numAdd rt runningTotal (snd item)],
              crisis_dates := crisis_dates chart @ [toISODate rt (fst item)]\<rparr>)"

text \<open>The entries with their time values, when every date is valid.\<close>

fun validDates :: "(int option \<times> 'n) list \<Rightarrow> (int \<times> 'n) list option" where
  "validDates [] = Some []"
| "validDates ((None, amount) # items) = None"
| "validDates ((Some t, amount) # items) =
     (case validDates items of None \<Rightarrow> None | Some rest \<Rightarrow> Some ((t, amount) # rest))"

text \<open>
  \<^verbatim>\<open>toISOString()\<close> of an Invalid Date raises \<^verbatim>\<open>RangeError: Invalid time value\<close>; the
  optional chaining in \<^verbatim>\<open>item.date?.toISOString()\<close> does not help, since an Invalid Date
  is an object. So when one entry has an Invalid Date the loop raises at that entry,
  wherever the sort (whose comparator then returns \<^verbatim>\<open>NaN\<close>) has put it. With valid
  dates only, the comparator is the difference of the time values and the sort, which is
  stable, is \<open>sort_key\<close>.
\<close>

definition crisisChart ::
  "'n js_runtime \<Rightarrow> ticket_properties HubSpotTicket list \<Rightarrow> thrown + 'n crisis_chart" where
  "crisisChart rt tickets =
     (case validDates (crisisData rt tickets) of
        None \<Rightarrow> Inl (ErrorObj ''Invalid time value'')
      | Some entries \<Rightarrow>
          Inr (tally rt (sort_key fst entries) 0 (numZero rt)
                 \<lparr>crisis_dates = [], runningCounts = [], runningTotals = []\<rparr>))"

text \<open>
  \<^verbatim>\<open>JSON.stringify\<close> writes a number that is not finite (an infinity or \<^verbatim>\<open>NaN\<close>) as
  \<^verbatim>\<open>null\<close>, here \<open>None\<close>: the running totals as the serialized chart carries them.
\<close>

definition emittedTotals :: "'n js_runtime \<Rightarrow> 'n crisis_chart \<Rightarrow> 'n option list" where
  "emittedTotals rt chart =
     map (\<lambda>total. if numIsFinite rt total then Some total else None) (runningTotals chart)"

subsection \<open>Age histogram\<close>

text \<open>\<^verbatim>\<open>365.25 * 24 * 60 * 60 * 1000\<close>\<close>

definition msPerYear :: int where
  "msPerYear = 31557600000"

text \<open>
  One round of the \<^verbatim>\<open>forEach\<close> that fills \<^verbatim>\<open>ages\<close>. The age of an Invalid Date is
  \<^verbatim>\<open>NaN\<close>, which fails both comparisons. \<^verbatim>\<open>Math.floor\<close> of the quotient is \<open>div\<close>, which
  rounds down on negative numbers too.
\<close>

definition collectAge ::
  "('n, 'r) js_runtime_scheme \<Rightarrow> int \<Rightarrow> ticket_properties HubSpotTicket \<Rightarrow> int list
     \<Rightarrow> int list" where
  "collectAge rt currentDate ticket ages =
     (case birthday (properties ticket) of
        None \<Rightarrow> ages
      | Some b \<Rightarrow>
          if b = [] then ages
          else (case parseDate rt b of
                  None \<Rightarrow> ages
                | Some birthDate \<Rightarrow>
                    (let age = (currentDate - birthDate) div msPerYear
                     in if 0 \<le> age \<and> age \<le> 120 then ages @ [age] else ages)))"

definition collectAges ::
  "('n, 'r) js_runtime_scheme \<Rightarrow> int \<Rightarrow> ticket_properties HubSpotTicket list \<Rightarrow> int list" where
  "collectAges rt currentDate tickets = fold (collectAge rt currentDate) tickets []"

definition ageGroupsOrdered :: "(string \<times> nat) list" where
  "ageGroupsOrdered =
     [(''0-17'', 0), (''18-24'', 0), (''25-34'', 0), (''35-44'', 0),
      (''45-54'', 0), (''55-64'', 0), (''65+'', 0)]"

text \<open>The index the \<^verbatim>\<open>if\<close> chain picks, and the increment \<^verbatim>\<open>groups[i][1]++\<close>.\<close>

definition groupIndex :: "int \<Rightarrow> nat" where
  "groupIndex age =
     (if age < 18 then 0 else if age < 25 then 1 else if age < 35 then 2
      else if age < 45 then 3 else if age < 55 then 4 else if age < 65 then 5 else 6)"

definition incrementGroup :: "nat \<Rightarrow> (string \<times> nat) list \<Rightarrow> (string \<times> nat) list" where
  "incrementGroup i groups = groups[i := (fst (groups ! i), snd (groups ! i) + 1)]"

definition countAgeGroups :: "int list \<Rightarrow> (string \<times> nat) list" where
  "countAgeGroups ages = fold (\<lambda>age groups. incrementGroup (groupIndex age) groups) ages ageGroupsOrdered"

definition filteredGroups :: "int list \<Rightarrow> (string \<times> nat) list" where
  "filteredGroups ages = filter (\<lambda>g. snd g > 0) (countAgeGroups ages)"

text \<open>
  The age chart: \<open>age_data\<close> is the list of series, each with its \<open>x\<close> (counts) and \<open>y\<close>
  (labels); the chart without data has no series.
\<close>

record age_chart =
  age_data :: "(nat list \<times> string list) list"
  age_title :: string

definition ageChart ::
  "('n, 'r) js_runtime_scheme \<Rightarrow> int \<Rightarrow> ticket_properties HubSpotTicket list \<Rightarrow> age_chart" where
  "ageChart rt currentDate tickets =
     (let ages = collectAges rt currentDate tickets;
          groups = filteredGroups ages
      in if length groups > 0 then
           \<lparr>age_data = [(map snd groups, map fst groups)],
            age_title = ''Age Demographics Distribution ('' @ numberToString (length ages)
                        @ '' people)''\<rparr>
         else
           \<lparr>age_data = [], age_title = ''Age Demographics - No Data Available''\<rparr>)"

subsection \<open>The four charts\<close>

record 'n charts =
  chart_resource_support :: resource_chart
  chart_service_provided :: service_chart
  chart_crisis_wish_tracking :: "'n crisis_chart"
  chart_age_demographics :: age_chart

definition generateCharts ::
  "'n js_runtime \<Rightarrow> int \<Rightarrow> ticket_properties HubSpotTicket list \<Rightarrow> thrown + 'n charts" where
  "generateCharts rt currentDate tickets =
     (case crisisChart rt tickets of
        Inl e \<Rightarrow> Inl e
      | Inr crisis \<Rightarrow>
          Inr \<lparr>chart_resource_support = resourceChart tickets,
               chart_service_provided = serviceChart tickets,
               chart_crisis_wish_tracking = crisis,
               chart_age_demographics = ageChart rt currentDate tickets\<rparr>)"

section \<open>Fetching the tickets\<close>









section \<open>The GET handler\<close>

text \<open>
  The response body and its HTTP status. A failed response is built without
  \<^verbatim>\<open>stats\<close> and \<^verbatim>\<open>charts\<close>.
\<close>

record 'n response =
  success :: bool
  stats :: "DashboardStats option"
  charts :: "'n charts option"
  error :: "string option"
  http_status :: nat




section \<open>Vocabulary of the properties\<close>

text \<open>A status of the form \<^verbatim>\<open>STAGE_<code>\<close>.\<close>

definition hasStagePrefix :: "jsval \<Rightarrow> bool" where
  "hasStagePrefix v = (case v of JStr s \<Rightarrow> take 6 s = ''STAGE_'' | _ \<Rightarrow> False)"

text \<open>The distinct elements of a list in the order of their first occurrence.\<close>

definition firstSeen :: "'a list \<Rightarrow> 'a list" where
  "firstSeen xs = rev (remdups (rev xs))"

text \<open>
  The service values that the pie chart keeps: present, not empty and not the text
  \<^verbatim>\<open>null\<close>.
\<close>

definition keptServices :: "ticket_properties HubSpotTicket list \<Rightarrow> string list" where
  "keptServices tickets =
     concat (map (\<lambda>ticket. case service_provided (properties ticket) of
                               None \<Rightarrow> []
                             | Some s \<Rightarrow> if s = [] \<or> s = ''null'' then [] else [s]) tickets)"


text \<open>
  The record that a ticket contributes to the crisis-wish chart: its time value and
  amount, when both \<^verbatim>\<open>crisis_wish\<close> and \<^verbatim>\<open>created_at\<close> are present and the
  amount parses.
\<close>

definition crisisEntry ::
  "'n js_runtime \<Rightarrow> ticket_properties HubSpotTicket \<Rightarrow> (int option \<times> 'n) option" where
  "crisisEntry rt ticket =
     (case (crisis_wish (properties ticket), created_at ticket) of
        (Some w, Some c) \<Rightarrow>
          if w = [] \<or> c = [] \<or> isNaN rt (parseFloat rt w) then None
          else Some (parseDate rt c, parseFloat rt w)
      | _ \<Rightarrow> None)"

text \<open>
  The running sums of a sequence from a starting value, each the sum before it plus
  the next element, with a given addition.
\<close>

fun runningSums :: "('n \<Rightarrow> 'n \<Rightarrow> 'n) \<Rightarrow> 'n \<Rightarrow> 'n list \<Rightarrow> 'n list" where
  "runningSums add acc [] = []"
| "runningSums add acc (x # xs) = add acc x # runningSums add (add acc x) xs"

text \<open>A sequence in which no element is followed by a smaller one, for a given order.\<close>

fun nonDecreasingBy :: "('n \<Rightarrow> 'n \<Rightarrow> bool) \<Rightarrow> 'n list \<Rightarrow> bool" where
  "nonDecreasingBy le [] = True"
| "nonDecreasingBy le [x] = True"
| "nonDecreasingBy le (x # y # ys) = (le x y \<and> nonDecreasingBy le (y # ys))"

text \<open>
  The age a ticket contributes to the histogram: whole years of 365.25 days from the
  birthday to now, when the birthday is present, is a date, and the age is within 0
  to 120.
\<close>

definition ticketAge ::
  "('n, 'r) js_runtime_scheme \<Rightarrow> int \<Rightarrow> ticket_properties HubSpotTicket \<Rightarrow> int option" where
  "ticketAge rt currentDate ticket =
     (case birthday (properties ticket) of
        None \<Rightarrow> None
      | Some b \<Rightarrow>
          if b = [] then None
          else (case parseDate rt b of
                  None \<Rightarrow> None
                | Some birthDate \<Rightarrow>
                    if 0 \<le> (currentDate - birthDate) div msPerYear
                       \<and> (currentDate - birthDate) div msPerYear \<le> 120
                    then Some ((currentDate - birthDate) div msPerYear) else None))"

text \<open>The seven age groups with their bounds, and the number of ages in each.\<close>

definition ageRanges :: "(string \<times> int \<times> int) list" where
  "ageRanges =
     [(''0-17'', 0, 17), (''18-24'', 18, 24), (''25-34'', 25, 34), (''35-44'', 35, 44),
      (''45-54'', 45, 54), (''55-64'', 55, 64), (''65+'', 65, 120)]"

definition inRange :: "int \<times> int \<Rightarrow> int \<Rightarrow> bool" where
  "inRange r age = (fst r \<le> age \<and> age \<le> snd r)"

definition bucketCounts :: "int list \<Rightarrow> (string \<times> nat) list" where
  "bucketCounts ages = map (\<lambda>g. (fst g, length (filter (inRange (snd g)) ages))) ageRanges"

section \<open>Sample data\<close>

text \<open>
  A runtime for the examples. Wednesday 2024-06-12 15:00 UTC is \<open>sampleNow\<close>. The time
  zone is that of New York in 2024: local time is UTC-4 from 2024-03-10 07:00 UTC to
  2024-11-03 06:00 UTC and UTC-5 otherwise, and a local time value is read as UTC-4
  from 03:00 of 2024-03-10 to 02:00 of 2024-11-03. The tables give the library's results
  on the texts the examples use. The numbers are \<^verbatim>\<open>NaN\<close> (\<open>None\<close>) and the rationals, added
  exactly: the amounts of the examples are doubles whose sums are doubles, so that on
  them this is the addition of doubles.
\<close>

definition sampleNow :: int where
  "sampleNow = 1718204400000"

definition sampleRuntime :: "rat option js_runtime" where
  "sampleRuntime =
     \<lparr>parseDate = map_of
        [(''2024-06-08T12:00:00.000Z'', 1717848000000),
         (''2024-06-09T03:59:59.999Z'', 1717905599999),
         (''2024-06-09T04:00:00.000Z'', 1717905600000),
         (''2024-06-11T09:30:00.000Z'', 1718098200000),
         (''2024-11-02T12:00:00.000Z'', 1730548800000),
         (''2024-11-03T03:59:59.999Z'', 1730606399999),
         (''2024-11-03T04:00:00.000Z'', 1730606400000),
         (''2007-01-01'', 1167609600000),
         (''2006-01-01'', 1136073600000),
         (''1904-01-01'', - 2082844800000),
         (''1903-01-01'', - 2114380800000),
         (''2030-01-01'', 1893456000000)],
      toISODate = (\<lambda>t. if t = 1717848000000 then ''2024-06-08''
                        else if t = 1717905599999 \<or> t = 1717905600000 then ''2024-06-09''
                        else if t = 1718098200000 then ''2024-06-11'' else []),
      tzaOfUTC = (\<lambda>t. if 1710054000000 \<le> t \<and> t < 1730613600000
                       then - 14400000 else - 18000000),
      tzaOfLocal = (\<lambda>l. if 1710039600000 \<le> l \<and> l < 1730599200000
                         then - 14400000 else - 18000000),
      parseFloat = map_of [(''100'', 100), (''-40'', - 40), (''12.5'', 25 / 2)],
      isNaN = (\<lambda>x. case x of None \<Rightarrow> True | Some a \<Rightarrow> False),
      numZero = Some 0,
      numAdd = (\<lambda>x y. case x of None \<Rightarrow> None
                          | Some a \<Rightarrow> (case y of None \<Rightarrow> None | Some b \<Rightarrow> Some (a + b))),
      numLessEq = (\<lambda>x y. case x of None \<Rightarrow> False
                            | Some a \<Rightarrow> (case y of None \<Rightarrow> False | Some b \<Rightarrow> a \<le> b)),
      numIsFinite = (\<lambda>x. case x of None \<Rightarrow> False | Some a \<Rightarrow> True)\<rparr>"

text \<open>The ticket that the fetch builds from an attribute bag.\<close>

definition bag ::
  "string option \<Rightarrow> string option \<Rightarrow> string option \<Rightarrow> string option \<Rightarrow> string option
     \<Rightarrow> ticket_properties" where
  "bag stage created service wish born =
     \<lparr>hs_pipeline_stage = stage, createdate = created, service_provided = service,
      crisis_wish = wish, birthday = born\<rparr>"

definition ticketOf :: "ticket_properties \<Rightarrow> ticket_properties HubSpotTicket" where
  "ticketOf p =
     \<lparr>ticket_id = ''1001'', status = getStatusFromStage (hs_pipeline_stage p),
      created_at = createdate p, properties = p\<rparr>"

text \<open>Two classified tickets, one open and one closed.\<close>

definition sampleClassified :: "ticket_properties HubSpotTicket list" where
  "sampleClassified =
     [ticketOf (bag (Some ''1'') None None None None),
      ticketOf (bag (Some ''257285393'') None None None None)]"

text \<open>A ticket whose stage code is the empty text.\<close>

definition sampleEmptyStage :: "ticket_properties HubSpotTicket" where
  "sampleEmptyStage = ticketOf (bag (Some '''') None None None None)"

text \<open>A ticket with a parsable amount and a \<^verbatim>\<open>created_at\<close> text that is no date.\<close>

definition sampleBadDate :: "ticket_properties HubSpotTicket" where
  "sampleBadDate = ticketOf (bag (Some ''1'') (Some ''not-a-date'') None (Some ''100'') None)"

text \<open>
  Tickets with birthdays that give the ages 17, 18, 120, 121 and -6, one with a text
  that is no date and one without birthday.
\<close>

definition sampleBirthdays :: "ticket_properties HubSpotTicket list" where
  "sampleBirthdays =
     map (\<lambda>born. ticketOf (bag (Some ''1'') None None None born))
       [Some ''2007-01-01'', Some ''2006-01-01'', Some ''1904-01-01'', Some ''1903-01-01'',
        Some ''2030-01-01'', Some ''not-a-date'', None]"





text \<open>
  Crisis-wish tickets: amounts 12.5 (created 2024-06-11) and 100 (created 2024-06-08),
  one whose amount is no number and one without \<^verbatim>\<open>created_at\<close>.
\<close>

definition sampleCrisis :: "ticket_properties HubSpotTicket list" where
  "sampleCrisis =
     [ticketOf (bag (Some ''1'') (Some ''2024-06-11T09:30:00.000Z'') None (Some ''12.5'') None),
      ticketOf (bag (Some ''1'') (Some ''2024-06-08T12:00:00.000Z'') None (Some ''100'') None),
      ticketOf (bag (Some ''1'') (Some ''2024-06-08T12:00:00.000Z'') None (Some ''abc'') None),
      ticketOf (bag (Some ''1'') None None (Some ''100'') None)]"

text \<open>Two crisis-wish tickets, the later one with the negative amount -40.\<close>

definition sampleNegative :: "ticket_properties HubSpotTicket list" where
  "sampleNegative =
     [ticketOf (bag (Some ''1'') (Some ''2024-06-11T09:30:00.000Z'') None (Some ''-40'') None),
      ticketOf (bag (Some ''1'') (Some ''2024-06-08T12:00:00.000Z'') None (Some ''100'') None)]"

text \<open>
  Tickets for the pie chart: services \<^verbatim>\<open>Housing\<close>, \<^verbatim>\<open>null\<close>, the empty text, none,
  \<^verbatim>\<open>Food\<close>, \<^verbatim>\<open>Housing\<close> again, \<^verbatim>\<open>10\<close> and \<^verbatim>\<open>9\<close>.
\<close>

definition sampleServices :: "ticket_properties HubSpotTicket list" where
  "sampleServices =
     map (\<lambda>service. ticketOf (bag (Some ''1'') None service None None))
       [Some ''Housing'', Some ''null'', Some '''', None, Some ''Food'', Some ''Housing'',
        Some ''10'', Some ''9'']"

text \<open>Two tickets, with the services \<^verbatim>\<open>b\<close> and then \<^verbatim>\<open>1\<close>.\<close>

definition sampleOrder :: "ticket_properties HubSpotTicket list" where
  "sampleOrder =
     map (\<lambda>service. ticketOf (bag (Some ''1'') None service None None))
       [Some ''b'', Some ''1'']"





section \<open>Facts about the status classification\<close>

lemma getStatusFromStage_absent: "getStatusFromStage None = JStr ''UNKNOWN''"
  by (simp add: getStatusFromStage_def)

lemma getStatusFromStage_table:
  "getStatusFromStage (Some ''1'') = JStr ''NEW''"
  "getStatusFromStage (Some ''2'') = JStr ''BACKLOG''"
  "getStatusFromStage (Some ''3'') = JStr ''RESOURCE_SUPPORT''"
  "getStatusFromStage (Some ''4'') = JStr ''CLOSED''"
  "getStatusFromStage (Some ''257285392'') = JStr ''WAITING_FOR_RESPONSE''"
  "getStatusFromStage (Some ''257285393'') = JStr ''COMPLETED''"
  "getStatusFromStage (Some ''1686843097'') = JStr ''IN_PROCESS_STAFFMARK''"
  "getStatusFromStage (Some ''1687677633'') = JStr ''EMPLOYMENT_SUPPORT''"
  "getStatusFromStage (Some ''999098012'') = JStr ''IN_PROCESS_OSW''"
  "getStatusFromStage (Some ''1746656967'') = JStr ''ARCHIVED''"
  by (simp_all add: getStatusFromStage_def getProp_def stageMapping_def)

lemma getStatusFromStage_other:
  assumes "s \<noteq> []" "map_of stageMapping s = None" "s \<notin> set objectPrototypeKeys"
  shows "getStatusFromStage (Some s) = JStr (''STAGE_'' @ s)"
  using assms by (simp add: getStatusFromStage_def getProp_def)

lemma inherited_all:
  "\<forall>k\<in>set objectPrototypeKeys. getStatusFromStage (Some k) = JProto k"
  by (simp add: objectPrototypeKeys_def getStatusFromStage_def getProp_def stageMapping_def)

lemma getStatusFromStage_inherited:
  assumes "s \<in> set objectPrototypeKeys"
  shows "getStatusFromStage (Some s) = JProto s"
  using inherited_all assms by (rule bspec)

lemma stageMapping_values:
  assumes "map_of stageMapping s = Some v"
  shows "v \<in> set openStatuses \<union> set closedStatuses \<and> v \<noteq> JStr ''UNKNOWN''
         \<and> \<not> hasStagePrefix v \<and> truthy v"
proof -
  from assms have "(s, v) \<in> set stageMapping" by (rule map_of_SomeD)
  then show ?thesis
    by (auto simp: stageMapping_def openStatuses_def closedStatuses_def hasStagePrefix_def)
qed

lemma classified_status:
  assumes "sg \<notin> Some ` set objectPrototypeKeys"
  shows "getStatusFromStage sg \<in> set openStatuses \<union> set closedStatuses
         \<longleftrightarrow> getStatusFromStage sg \<noteq> JStr ''UNKNOWN'' \<and> \<not> hasStagePrefix (getStatusFromStage sg)"
proof (cases sg)
  case None
  then show ?thesis
    by (simp add: getStatusFromStage_def openStatuses_def closedStatuses_def)
next
  case (Some s)
  show ?thesis
  proof (cases "s = []")
    case True
    with Some show ?thesis
      by (simp add: getStatusFromStage_def openStatuses_def closedStatuses_def)
  next
    case False
    show ?thesis
    proof (cases "map_of stageMapping s")
      case None
      from assms Some have "s \<notin> set objectPrototypeKeys" by auto
      with False None have "getStatusFromStage (Some s) = JStr (''STAGE_'' @ s)"
        by (rule getStatusFromStage_other)
      with Some show ?thesis
        by (simp add: openStatuses_def closedStatuses_def hasStagePrefix_def)
    next
      case (Some v)
      with False have "getStatusFromStage (Some s) = v"
        using stageMapping_values [OF Some]
        by (simp add: getStatusFromStage_def getProp_def)
      with \<open>sg = Some s\<close> stageMapping_values [OF Some] show ?thesis by simp
    qed
  qed
qed

lemma unclassified_not_counted:
  assumes "v = JStr ''UNKNOWN'' \<or> hasStagePrefix v"
  shows "v \<notin> set openStatuses \<union> set closedStatuses"
  using assms by (auto simp: openStatuses_def closedStatuses_def hasStagePrefix_def)

section \<open>Facts about the aggregator\<close>

lemma filter_two_le:
  assumes "\<And>x. \<not> (P x \<and> Q x)"
  shows "length (filter P xs) + length (filter Q xs) \<le> length xs"
proof (induction xs)
  case Nil
  then show ?case by simp
next
  case (Cons x xs)
  with assms [of x] show ?case by auto
qed

lemma filter_two_eq:
  assumes "\<And>x. \<not> (P x \<and> Q x)"
  shows "length (filter P xs) + length (filter Q xs) = length xs \<longleftrightarrow> (\<forall>x\<in>set xs. P x \<or> Q x)"
proof (induction xs)
  case Nil
  then show ?case by simp
next
  case (Cons x xs)
  have "length (filter P xs) + length (filter Q xs) \<le> length xs"
    using assms by (rule filter_two_le)
  with Cons assms [of x] show ?case by auto
qed

lemma open_closed_disjoint: "\<not> (v \<in> set openStatuses \<and> v \<in> set closedStatuses)"
  by (auto simp: openStatuses_def closedStatuses_def)

lemma stats_open:
  "open_tickets (generateDashboardStats rt today tickets)
     = length (filter (\<lambda>t. status t \<in> set openStatuses) tickets)"
  by (simp add: generateDashboardStats_def)

lemma stats_closed:
  "closed_tickets (generateDashboardStats rt today tickets)
     = length (filter (\<lambda>t. status t \<in> set closedStatuses) tickets)"
  by (simp add: generateDashboardStats_def)


text \<open>
  C1. For every ticket collection, \<open>open_tickets + closed_tickets\<close> is at most the number
  of tickets, and the two are equal exactly when every ticket's status lies in the Open
  set or the Closed set. Equality excludes every status \<open>UNKNOWN\<close> or \<open>STAGE_<code>\<close>; and
  for statuses that the classifier produced from stage codes other than the names
  inherited from \<^verbatim>\<open>Object.prototype\<close>, equality holds exactly when no status is
  \<open>UNKNOWN\<close> or of the form \<open>STAGE_<code>\<close>.
\<close>

theorem open_plus_closed_at_most_total:
  "(let covered = open_tickets (generateDashboardStats rt today tickets)
                  + closed_tickets (generateDashboardStats rt today tickets)
    in covered \<le> length tickets
       \<and> (covered = length tickets
            \<longleftrightarrow> (\<forall>t\<in>set tickets. status t \<in> set openStatuses \<union> set closedStatuses))
       \<and> (covered = length tickets
            \<longrightarrow> (\<forall>t\<in>set tickets. status t \<noteq> JStr ''UNKNOWN'' \<and> \<not> hasStagePrefix (status t)))
       \<and> ((\<forall>t\<in>set tickets. \<exists>sg. sg \<notin> Some ` set objectPrototypeKeys
                                    \<and> status t = getStatusFromStage sg)
            \<longrightarrow> (covered = length tickets
                  \<longleftrightarrow> (\<forall>t\<in>set tickets. status t \<noteq> JStr ''UNKNOWN''
                                          \<and> \<not> hasStagePrefix (status t)))))"
proof -
  let ?P = "\<lambda>t. status t \<in> set openStatuses"
  let ?Q = "\<lambda>t. status t \<in> set closedStatuses"
  let ?c = "length (filter ?P tickets) + length (filter ?Q tickets)"
  let ?counted = "\<forall>t\<in>set tickets. status t \<in> set openStatuses \<union> set closedStatuses"
  let ?named = "\<forall>t\<in>set tickets. status t \<noteq> JStr ''UNKNOWN'' \<and> \<not> hasStagePrefix (status t)"
  have disj: "\<not> (?P t \<and> ?Q t)" for t by (rule open_closed_disjoint)
  have le: "?c \<le> length tickets"
    using disj by (rule filter_two_le)
  have "?c = length tickets \<longleftrightarrow> (\<forall>t\<in>set tickets. ?P t \<or> ?Q t)"
    using disj by (rule filter_two_eq)
  then have eq: "?c = length tickets \<longleftrightarrow> ?counted" by simp
  have excl: "?named" if "?counted"
  proof
    fix t assume "t \<in> set tickets"
    with that have "status t \<in> set openStatuses \<union> set closedStatuses" by (rule bspec)
    then show "status t \<noteq> JStr ''UNKNOWN'' \<and> \<not> hasStagePrefix (status t)"
      using unclassified_not_counted [of "status t"] by blast
  qed
  have conv: "?counted"
    if cls: "\<forall>t\<in>set tickets. \<exists>sg. sg \<notin> Some ` set objectPrototypeKeys
                                   \<and> status t = getStatusFromStage sg"
      and ok: "?named"
  proof
    fix t assume t: "t \<in> set tickets"
    from cls t obtain sg where sg: "sg \<notin> Some ` set objectPrototypeKeys"
      and st: "status t = getStatusFromStage sg" by blast
    from ok t have "status t \<noteq> JStr ''UNKNOWN'' \<and> \<not> hasStagePrefix (status t)"
      by (rule bspec)
    then show "status t \<in> set openStatuses \<union> set closedStatuses"
      unfolding st using classified_status [OF sg] by blast
  qed
  show ?thesis
    unfolding Let_def stats_open stats_closed eq
  proof (intro conjI impI)
    show "?c \<le> length tickets" by (rule le)
    show "?counted \<longleftrightarrow> ?counted" by (rule refl)
    show "?named" if "?counted" using that by (rule excl)
    show "?counted \<longleftrightarrow> ?named"
      if "\<forall>t\<in>set tickets. \<exists>sg. sg \<notin> Some ` set objectPrototypeKeys
                                   \<and> status t = getStatusFromStage sg"
      using excl conv [OF that] by (rule iffI)
  qed
qed

theorem open_plus_closed_at_most_total_witness:
  "length sampleClassified = 2
   \<and> open_tickets (generateDashboardStats sampleRuntime sampleNow sampleClassified)
       + closed_tickets (generateDashboardStats sampleRuntime sampleNow sampleClassified) = 2
   \<and> map status sampleClassified = [JStr ''NEW'', JStr ''COMPLETED'']"
proof -
  have cls: "\<forall>t\<in>set sampleClassified. \<exists>sg. sg \<notin> Some ` set objectPrototypeKeys
                                            \<and> status t = getStatusFromStage sg"
  proof
    fix t assume "t \<in> set sampleClassified"
    then consider "t = ticketOf (bag (Some ''1'') None None None None)"
      | "t = ticketOf (bag (Some ''257285393'') None None None None)"
      by (auto simp: sampleClassified_def)
    then show "\<exists>sg. sg \<notin> Some ` set objectPrototypeKeys \<and> status t = getStatusFromStage sg"
    proof cases
      case 1
      then have "Some ''1'' \<notin> Some ` set objectPrototypeKeys
                 \<and> status t = getStatusFromStage (Some ''1'')"
        by (simp add: ticketOf_def bag_def objectPrototypeKeys_def)
      then show ?thesis ..
    next
      case 2
      then have "Some ''257285393'' \<notin> Some ` set objectPrototypeKeys
                 \<and> status t = getStatusFromStage (Some ''257285393'')"
        by (simp add: ticketOf_def bag_def objectPrototypeKeys_def)
      then show ?thesis ..
    qed
  qed
  have named: "\<forall>t\<in>set sampleClassified.
                 status t \<noteq> JStr ''UNKNOWN'' \<and> \<not> hasStagePrefix (status t)"
    by (simp add: sampleClassified_def ticketOf_def bag_def getStatusFromStage_table
          hasStagePrefix_def)
  from open_plus_closed_at_most_total [of sampleRuntime sampleNow sampleClassified] cls named
  have "open_tickets (generateDashboardStats sampleRuntime sampleNow sampleClassified)
          + closed_tickets (generateDashboardStats sampleRuntime sampleNow sampleClassified)
          = length sampleClassified"
    unfolding Let_def by blast
  then show ?thesis
    by (simp add: sampleClassified_def ticketOf_def bag_def getStatusFromStage_table)
qed

text \<open>
  C2. The classifier on the stage code \<^verbatim>\<open>constructor\<close>, a non-empty code that is not one
  of the ten of the table: the read \<^verbatim>\<open>stageMapping[stageId]\<close> finds the member that the
  table inherits from \<^verbatim>\<open>Object.prototype\<close>, which is truthy, and the classifier returns
  it, not the text \<^verbatim>\<open>STAGE_constructor\<close>.
\<close>

theorem classifier_returns_inherited_member:
  "getStatusFromStage (Some ''constructor'') = JProto ''constructor''
   \<and> getStatusFromStage (Some ''constructor'') \<noteq> JStr ''STAGE_constructor''"
  by (simp add: getStatusFromStage_def getProp_def stageMapping_def objectPrototypeKeys_def)

text \<open>
  C10. The classifier maps the empty stage code to \<open>UNKNOWN\<close>, as it does an absent
  one, and a ticket with that status adds nothing to \<open>open_tickets\<close> and nothing to
  \<open>closed_tickets\<close>.
\<close>

theorem empty_stage_code_is_unknown:
  "getStatusFromStage (Some '''') = JStr ''UNKNOWN''
   \<and> getStatusFromStage (Some '''') = getStatusFromStage None
   \<and> (status ticket = getStatusFromStage (Some '''')
        \<longrightarrow> open_tickets (generateDashboardStats rt today (ticket # tickets))
              = open_tickets (generateDashboardStats rt today tickets)
            \<and> closed_tickets (generateDashboardStats rt today (ticket # tickets))
              = closed_tickets (generateDashboardStats rt today tickets))"
proof -
  have u: "getStatusFromStage (Some '''') = JStr ''UNKNOWN''"
    by (simp add: getStatusFromStage_def)
  have "JStr ''UNKNOWN'' \<notin> set openStatuses" "JStr ''UNKNOWN'' \<notin> set closedStatuses"
    by (simp_all add: openStatuses_def closedStatuses_def)
  then show ?thesis
    unfolding stats_open stats_closed u getStatusFromStage_absent by simp
qed

theorem empty_stage_code_is_unknown_witness:
  "status sampleEmptyStage = getStatusFromStage (Some '''')
   \<and> status sampleEmptyStage = JStr ''UNKNOWN''
   \<and> open_tickets (generateDashboardStats sampleRuntime sampleNow [sampleEmptyStage]) = 0
   \<and> closed_tickets (generateDashboardStats sampleRuntime sampleNow [sampleEmptyStage]) = 0"
proof -
  have st: "status sampleEmptyStage = getStatusFromStage (Some '''')"
    by (simp add: sampleEmptyStage_def ticketOf_def bag_def)
  have z: "open_tickets (generateDashboardStats sampleRuntime sampleNow
                           ([] :: ticket_properties HubSpotTicket list)) = 0"
          "closed_tickets (generateDashboardStats sampleRuntime sampleNow
                           ([] :: ticket_properties HubSpotTicket list)) = 0"
    by (simp_all add: generateDashboardStats_def)
  from empty_stage_code_is_unknown [of sampleEmptyStage sampleRuntime sampleNow "[]"] st z
  show ?thesis by simp
qed

section \<open>The empty collection\<close>

lemma collectAges_Nil: "collectAges rt currentDate [] = []"
  by (simp add: collectAges_def)

lemma ageChart_Nil:
  "ageChart rt currentDate [] =
     \<lparr>age_data = [], age_title = ''Age Demographics - No Data Available''\<rparr>"
  by (simp add: ageChart_def collectAges_Nil filteredGroups_def countAgeGroups_def
        ageGroupsOrdered_def)

lemma crisisChart_Nil:
  "crisisChart rt [] = Inr \<lparr>crisis_dates = [], runningCounts = [], runningTotals = []\<rparr>"
  by (simp add: crisisChart_def crisisData_def)

text \<open>
  C6. For the empty ticket collection the aggregator returns the five statistics all
  equal to 0, and the chart builder returns charts whose age chart is the empty marker:
  no data series and the no-data title.
\<close>

theorem empty_collection_zero_stats_and_empty_age_chart:
  "generateDashboardStats rt today [] =
     \<lparr>open_tickets = 0, new_tickets_this_week = 0, osw_count = 0,
      staffmark_count = 0, closed_tickets = 0\<rparr>
   \<and> (\<exists>cs. generateCharts rt currentDate [] = Inr cs
            \<and> chart_age_demographics cs =
                \<lparr>age_data = [], age_title = ''Age Demographics - No Data Available''\<rparr>)"
  by (simp add: generateDashboardStats_def generateCharts_def crisisChart_Nil ageChart_Nil)

theorem empty_collection_zero_stats_and_empty_age_chart_witness:
  "generateDashboardStats sampleRuntime sampleNow ([] :: ticket_properties HubSpotTicket list) =
     \<lparr>open_tickets = 0, new_tickets_this_week = 0, osw_count = 0,
      staffmark_count = 0, closed_tickets = 0\<rparr>
   \<and> (\<exists>cs. generateCharts sampleRuntime sampleNow [] = Inr cs
            \<and> age_data (chart_age_demographics cs) = [])"
  using empty_collection_zero_stats_and_empty_age_chart
          [where rt = sampleRuntime and today = sampleNow and currentDate = sampleNow]
  by auto

section \<open>The age histogram\<close>

lemma fold_push: "fold (\<lambda>t acc. acc @ g t) ts init = init @ concat (map g ts)"
  by (induction ts arbitrary: init) simp_all

lemma concat_option_map_filter:
  "concat (map (\<lambda>t. case f t of None \<Rightarrow> [] | Some a \<Rightarrow> [a]) ts) = List.map_filter f ts"
  by (induction ts) (simp_all split: option.splits)

lemma collectAge_push:
  "collectAge rt currentDate t ages
     = ages @ (case ticketAge rt currentDate t of None \<Rightarrow> [] | Some a \<Rightarrow> [a])"
  by (simp add: collectAge_def ticketAge_def Let_def split: option.splits)

lemma collectAges_map_filter:
  "collectAges rt currentDate ts = List.map_filter (ticketAge rt currentDate) ts"
proof -
  have "collectAge rt currentDate
          = (\<lambda>t acc. acc @ (case ticketAge rt currentDate t of None \<Rightarrow> [] | Some a \<Rightarrow> [a]))"
    by (intro ext) (rule collectAge_push)
  then show ?thesis
    by (simp add: collectAges_def fold_push concat_option_map_filter)
qed

lemma ticketAge_range:
  assumes "ticketAge rt currentDate t = Some a"
  shows "0 \<le> a \<and> a \<le> 120"
  using assms by (auto simp: ticketAge_def split: option.splits if_splits)

lemma collectAges_valid: "\<forall>a\<in>set (collectAges rt currentDate ts). 0 \<le> a \<and> a \<le> 120"
  unfolding collectAges_map_filter
  by (induction ts) (auto split: option.splits dest: ticketAge_range)

lemma incrementGroup_cases:
  "incrementGroup 0 [(l0, c0), g1, g2, g3, g4, g5, g6] = [(l0, c0 + 1), g1, g2, g3, g4, g5, g6]"
  "incrementGroup (Suc 0) [g0, (l1, c1), g2, g3, g4, g5, g6] = [g0, (l1, c1 + 1), g2, g3, g4, g5, g6]"
  "incrementGroup 2 [g0, g1, (l2, c2), g3, g4, g5, g6] = [g0, g1, (l2, c2 + 1), g3, g4, g5, g6]"
  "incrementGroup 3 [g0, g1, g2, (l3, c3), g4, g5, g6] = [g0, g1, g2, (l3, c3 + 1), g4, g5, g6]"
  "incrementGroup 4 [g0, g1, g2, g3, (l4, c4), g5, g6] = [g0, g1, g2, g3, (l4, c4 + 1), g5, g6]"
  "incrementGroup 5 [g0, g1, g2, g3, g4, (l5, c5), g6] = [g0, g1, g2, g3, g4, (l5, c5 + 1), g6]"
  "incrementGroup 6 [g0, g1, g2, g3, g4, g5, (l6, c6)] = [g0, g1, g2, g3, g4, g5, (l6, c6 + 1)]"
  by (simp_all add: incrementGroup_def eval_nat_numeral)

lemma count_fold:
  assumes "\<forall>a\<in>set ages. 0 \<le> a \<and> a \<le> 120"
  shows "fold (\<lambda>age groups. incrementGroup (groupIndex age) groups) ages
           [(l0, c0), (l1, c1), (l2, c2), (l3, c3), (l4, c4), (l5, c5), (l6, c6)]
         = [(l0, c0 + length (filter (inRange (0, 17)) ages)),
            (l1, c1 + length (filter (inRange (18, 24)) ages)),
            (l2, c2 + length (filter (inRange (25, 34)) ages)),
            (l3, c3 + length (filter (inRange (35, 44)) ages)),
            (l4, c4 + length (filter (inRange (45, 54)) ages)),
            (l5, c5 + length (filter (inRange (55, 64)) ages)),
            (l6, c6 + length (filter (inRange (65, 120)) ages))]"
  using assms
proof (induction ages arbitrary: c0 c1 c2 c3 c4 c5 c6)
  case Nil
  show ?case by simp
next
  case (Cons a ages)
  then have a: "0 \<le> a" "a \<le> 120" and rest: "\<forall>a\<in>set ages. 0 \<le> a \<and> a \<le> 120"
    by simp_all
  consider "a < 18" | "18 \<le> a" "a < 25" | "25 \<le> a" "a < 35" | "35 \<le> a" "a < 45"
    | "45 \<le> a" "a < 55" | "55 \<le> a" "a < 65" | "65 \<le> a"
    by linarith
  then show ?case
  proof cases
    case 1
    then have "groupIndex a = 0" by (simp add: groupIndex_def)
    with 1 a show ?thesis
      by (simp add: incrementGroup_cases Cons.IH [OF rest] inRange_def)
  next
    case 2
    then have "groupIndex a = Suc 0" by (simp add: groupIndex_def)
    with 2 a show ?thesis
      by (simp add: incrementGroup_cases Cons.IH [OF rest] inRange_def)
  next
    case 3
    then have "groupIndex a = 2" by (simp add: groupIndex_def)
    with 3 a show ?thesis
      by (simp add: incrementGroup_cases Cons.IH [OF rest] inRange_def)
  next
    case 4
    then have "groupIndex a = 3" by (simp add: groupIndex_def)
    with 4 a show ?thesis
      by (simp add: incrementGroup_cases Cons.IH [OF rest] inRange_def)
  next
    case 5
    then have "groupIndex a = 4" by (simp add: groupIndex_def)
    with 5 a show ?thesis
      by (simp add: incrementGroup_cases Cons.IH [OF rest] inRange_def)
  next
    case 6
    then have "groupIndex a = 5" by (simp add: groupIndex_def)
    with 6 a show ?thesis
      by (simp add: incrementGroup_cases Cons.IH [OF rest] inRange_def)
  next
    case 7
    then have "groupIndex a = 6" by (simp add: groupIndex_def)
    with 7 a show ?thesis
      by (simp add: incrementGroup_cases Cons.IH [OF rest] inRange_def)
  qed
qed

lemma countAgeGroups_bucketCounts:
  assumes "\<forall>a\<in>set ages. 0 \<le> a \<and> a \<le> 120"
  shows "countAgeGroups ages = bucketCounts ages"
  unfolding countAgeGroups_def ageGroupsOrdered_def count_fold [OF assms]
  by (simp add: bucketCounts_def ageRanges_def)

lemma filteredGroups_empty_iff:
  assumes "\<forall>a\<in>set ages. 0 \<le> a \<and> a \<le> 120"
  shows "filteredGroups ages = [] \<longleftrightarrow> ages = []"
proof
  assume "ages = []"
  then show "filteredGroups ages = []"
    by (simp add: filteredGroups_def countAgeGroups_def ageGroupsOrdered_def)
next
  assume empty: "filteredGroups ages = []"
  show "ages = []"
  proof (rule ccontr)
    assume "ages \<noteq> []"
    then obtain a where a: "a \<in> set ages" by (cases ages) auto
    with assms have "0 \<le> a" "a \<le> 120" by auto
    then have "\<exists>g\<in>set ageRanges. inRange (snd g) a"
      unfolding ageRanges_def inRange_def by simp linarith
    then obtain g where g: "g \<in> set ageRanges" "inRange (snd g) a" by blast
    with a have "filter (inRange (snd g)) ages \<noteq> []"
      by (auto simp: filter_empty_conv)
    then have "0 < length (filter (inRange (snd g)) ages)" by simp
    with g have "\<exists>p\<in>set (bucketCounts ages). 0 < snd p"
      unfolding bucketCounts_def by auto
    then have "filter (\<lambda>p. 0 < snd p) (bucketCounts ages) \<noteq> []"
      by (simp add: filter_empty_conv)
    with empty show False
      by (simp add: filteredGroups_def countAgeGroups_bucketCounts [OF assms])
  qed
qed

text \<open>
  C5. The ages collected for the histogram are, in ticket order, the whole-year ages
  (365.25-day years, from birthday to now) of the tickets whose birthday is present and
  a date and whose age is within 0 to 120: every other age is left out. The if chain
  puts age 17 in \<open>0-17\<close>, 18 in \<open>18-24\<close> and 120 in \<open>65+\<close>, and the counts it keeps are
  those of the seven ranges in ascending order. The chart lists the groups with a
  non-zero count in that order; it has no series exactly when no age was collected.
\<close>

theorem age_histogram_buckets:
  "(let ages = collectAges rt currentDate tickets;
        kept = filter (\<lambda>g. 0 < snd g) (bucketCounts ages)
    in ages = List.map_filter (ticketAge rt currentDate) tickets
       \<and> (\<forall>a\<in>set ages. 0 \<le> a \<and> a \<le> 120)
       \<and> countAgeGroups ages = bucketCounts ages
       \<and> filteredGroups ages = kept
       \<and> age_data (ageChart rt currentDate tickets)
           = (if ages = [] then [] else [(map snd kept, map fst kept)])
       \<and> map fst ageGroupsOrdered = map fst ageRanges
       \<and> fst (ageGroupsOrdered ! groupIndex 17) = ''0-17''
       \<and> fst (ageGroupsOrdered ! groupIndex 18) = ''18-24''
       \<and> fst (ageGroupsOrdered ! groupIndex 120) = ''65+'')"
proof -
  let ?ages = "collectAges rt currentDate tickets"
  have valid: "\<forall>a\<in>set ?ages. 0 \<le> a \<and> a \<le> 120" by (rule collectAges_valid)
  have counts: "countAgeGroups ?ages = bucketCounts ?ages"
    using valid by (rule countAgeGroups_bucketCounts)
  have kept: "filteredGroups ?ages = filter (\<lambda>g. 0 < snd g) (bucketCounts ?ages)"
    by (simp add: filteredGroups_def counts)
  have chart: "age_data (ageChart rt currentDate tickets)
                 = (if ?ages = [] then []
                    else [(map snd (filter (\<lambda>g. 0 < snd g) (bucketCounts ?ages)),
                           map fst (filter (\<lambda>g. 0 < snd g) (bucketCounts ?ages)))])"
    using filteredGroups_empty_iff [OF valid] kept
    by (simp add: ageChart_def Let_def)
  have labels: "map fst ageGroupsOrdered = map fst ageRanges"
    "fst (ageGroupsOrdered ! groupIndex 17) = ''0-17''"
    "fst (ageGroupsOrdered ! groupIndex 18) = ''18-24''"
    "fst (ageGroupsOrdered ! groupIndex 120) = ''65+''"
    by (simp_all add: ageGroupsOrdered_def ageRanges_def groupIndex_def)
  show ?thesis
    unfolding Let_def
    using collectAges_map_filter [of rt currentDate tickets] valid counts kept chart labels
    by (intro conjI)
qed

lemma sampleBirthdays_ages: "collectAges sampleRuntime sampleNow sampleBirthdays = [17, 18, 120]"
  by (simp add: collectAges_def collectAge_def sampleBirthdays_def ticketOf_def bag_def
        sampleRuntime_def sampleNow_def msPerYear_def Let_def)

theorem age_histogram_buckets_witness:
  "collectAges sampleRuntime sampleNow sampleBirthdays = [17, 18, 120]
   \<and> countAgeGroups [17, 18, 120] =
       [(''0-17'', 1), (''18-24'', 1), (''25-34'', 0), (''35-44'', 0), (''45-54'', 0),
        (''55-64'', 0), (''65+'', 1)]
   \<and> age_data (ageChart sampleRuntime sampleNow sampleBirthdays)
       = [([1, 1, 1], [''0-17'', ''18-24'', ''65+''])]"
proof -
  have b: "bucketCounts [17, 18, 120] =
             [(''0-17'', 1), (''18-24'', 1), (''25-34'', 0), (''35-44'', 0), (''45-54'', 0),
              (''55-64'', 0), (''65+'', 1)]"
    by (simp add: bucketCounts_def ageRanges_def inRange_def)
  from age_histogram_buckets [of sampleRuntime sampleNow sampleBirthdays,
         unfolded Let_def sampleBirthdays_ages, THEN conjunct2]
  show ?thesis
    by (simp add: b sampleBirthdays_ages)
qed

section \<open>A date that does not parse\<close>

text \<open>
  C9. One ticket whose \<^verbatim>\<open>crisis_wish\<close> is the amount \<^verbatim>\<open>100\<close> and whose \<^verbatim>\<open>created_at\<close> is a
  text that is no date: the chart builder does not return charts, it raises the
  \<^verbatim>\<open>RangeError\<close> of \<^verbatim>\<open>toISOString\<close> on the Invalid Date.
\<close>

theorem chart_builder_raises_on_unparsable_date:
  "parseDate sampleRuntime ''not-a-date'' = None
   \<and> parseFloat sampleRuntime ''100'' = Some 100
   \<and> generateCharts sampleRuntime sampleNow [sampleBadDate] = Inl (ErrorObj ''Invalid time value'')"
  by (simp add: generateCharts_def crisisChart_def crisisData_def collectCrisis_def
        sampleBadDate_def ticketOf_def bag_def sampleRuntime_def Let_def)

section \<open>The start of the week\<close>













section \<open>The crisis-wish running tally\<close>

lemma collectCrisis_push:
  "collectCrisis rt t acc = acc @ (case crisisEntry rt t of None \<Rightarrow> [] | Some e \<Rightarrow> [e])"
  by (simp add: collectCrisis_def crisisEntry_def Let_def split: option.splits)

lemma crisisData_map_filter: "crisisData rt ts = List.map_filter (crisisEntry rt) ts"
proof -
  have "collectCrisis rt
          = (\<lambda>t acc. acc @ (case crisisEntry rt t of None \<Rightarrow> [] | Some e \<Rightarrow> [e]))"
    by (intro ext) (rule collectCrisis_push)
  then show ?thesis
    by (simp add: crisisData_def fold_push concat_option_map_filter)
qed

lemma length_runningSums: "length (runningSums add acc xs) = length xs"
  by (induction xs arbitrary: acc) simp_all

text \<open>
  Where adding two numbers that are not below \<open>z\<close> gives a number that is not below the
  first of them nor below \<open>z\<close>, the running sums of such numbers, from such a start, never
  decrease.
\<close>

lemma runningSums_nonDecreasing:
  assumes step: "\<And>x y. le z x \<Longrightarrow> le z y \<Longrightarrow> le x (add x y) \<and> le z (add x y)"
    and start: "le z acc"
    and amounts: "\<forall>x\<in>set xs. le z x"
  shows "nonDecreasingBy le (runningSums add acc xs)"
  using start amounts
proof (induction xs arbitrary: acc)
  case Nil
  show ?case by simp
next
  case (Cons x xs)
  from Cons.prems have x: "le z x" and rest: "\<forall>x\<in>set xs. le z x" by simp_all
  from step [OF Cons.prems(1) x] have next_start: "le z (add acc x)" by simp
  have tail: "nonDecreasingBy le (runningSums add (add acc x) xs)"
    using next_start rest by (rule Cons.IH)
  show ?case
  proof (cases xs)
    case Nil
    then show ?thesis by simp
  next
    case (Cons y ys)
    with rest have "le z y" by simp
    with step [OF next_start] have "le (add acc x) (add (add acc x) y)" by simp
    with tail Cons show ?thesis by simp
  qed
qed

lemma tally_spec:
  "tally rt items index acc chart =
     \<lparr>crisis_dates = crisis_dates chart @ map (\<lambda>item. toISODate rt (fst item)) items,
      runningCounts = runningCounts chart @ [Suc index ..< Suc index + length items],
      runningTotals = runningTotals chart @ runningSums (numAdd rt) acc (map snd items)\<rparr>"
proof (induction items arbitrary: index acc chart)
  case Nil
  show ?case by simp
next
  case (Cons item items)
  have "[Suc index ..< Suc index + length (item # items)]
          = Suc index # [Suc (Suc index) ..< Suc (Suc index) + length items]"
    by (subst upt_conv_Cons) simp_all
  then show ?case by (simp add: Cons.IH)
qed

lemma crisisChart_valid:
  assumes "validDates (crisisData rt tickets) = Some entries"
  shows "crisisChart rt tickets =
           Inr \<lparr>crisis_dates = map (\<lambda>item. toISODate rt (fst item)) (sort_key fst entries),
                runningCounts = [1 ..< Suc (length entries)],
                runningTotals = runningSums (numAdd rt) (numZero rt)
                                  (map snd (sort_key fst entries))\<rparr>"
  using assms by (simp add: crisisChart_def tally_spec)

lemma emittedTotals_finite:
  assumes "\<forall>t\<in>set (runningTotals chart). numIsFinite rt t"
  shows "emittedTotals rt chart = map Some (runningTotals chart)"
  unfolding emittedTotals_def using assms by (intro map_cong) simp_all

text \<open>
  C3 (amended). For every ticket collection whose selected records (those with a
  present \<^verbatim>\<open>crisis_wish\<close> that parses to a number and a present \<^verbatim>\<open>created_at\<close>) all have a
  valid date: the chart is built over the records sorted ascending by time; the running
  counts are 1, 2, 3, \<dots>, one per record; the running totals are the sums that the
  addition of numbers accumulates from 0 over the amounts in that order; they are
  serialized as they are when all are finite; and they never decrease when no amount is
  below 0, adding numbers that are not below 0 giving a number that is not below the
  first of them nor below 0 (as the addition of doubles does).
\<close>

theorem crisis_running_tally:
  "crisisData rt tickets = List.map_filter (crisisEntry rt) tickets
   \<and> (validDates (crisisData rt tickets) = Some entries \<longrightarrow>
        (\<exists>chart. crisisChart rt tickets = Inr chart
           \<and> sorted (map fst (sort_key fst entries))
           \<and> runningCounts chart = [1 ..< Suc (length entries)]
           \<and> runningTotals chart
               = runningSums (numAdd rt) (numZero rt) (map snd (sort_key fst entries))
           \<and> length (runningTotals chart) = length entries
           \<and> ((\<forall>t\<in>set (runningTotals chart). numIsFinite rt t)
                \<longrightarrow> emittedTotals rt chart = map Some (runningTotals chart))
           \<and> (numLessEq rt (numZero rt) (numZero rt)
                \<and> (\<forall>x y. numLessEq rt (numZero rt) x \<and> numLessEq rt (numZero rt) y
                       \<longrightarrow> numLessEq rt x (numAdd rt x y)
                           \<and> numLessEq rt (numZero rt) (numAdd rt x y))
                \<and> (\<forall>e\<in>set entries. numLessEq rt (numZero rt) (snd e))
                \<longrightarrow> nonDecreasingBy (numLessEq rt) (runningTotals chart))))"
proof (intro conjI impI)
  show "crisisData rt tickets = List.map_filter (crisisEntry rt) tickets"
    by (rule crisisData_map_filter)
next
  assume valid: "validDates (crisisData rt tickets) = Some entries"
  let ?sorted = "sort_key fst entries"
  let ?chart = "\<lparr>crisis_dates = map (\<lambda>item. toISODate rt (fst item)) ?sorted,
                  runningCounts = [1 ..< Suc (length entries)],
                  runningTotals = runningSums (numAdd rt) (numZero rt) (map snd ?sorted)\<rparr>"
  have built: "crisisChart rt tickets = Inr ?chart"
    using valid by (rule crisisChart_valid)
  have ordered: "sorted (map fst ?sorted)" by (rule sorted_sort_key)
  have len: "length (runningTotals ?chart) = length entries"
    by (simp add: length_runningSums)
  have emitted: "emittedTotals rt ?chart = map Some (runningTotals ?chart)"
    if "\<forall>t\<in>set (runningTotals ?chart). numIsFinite rt t"
    using that by (rule emittedTotals_finite)
  have mono: "nonDecreasingBy (numLessEq rt) (runningTotals ?chart)"
    if h: "numLessEq rt (numZero rt) (numZero rt)
           \<and> (\<forall>x y. numLessEq rt (numZero rt) x \<and> numLessEq rt (numZero rt) y
                  \<longrightarrow> numLessEq rt x (numAdd rt x y)
                      \<and> numLessEq rt (numZero rt) (numAdd rt x y))
           \<and> (\<forall>e\<in>set entries. numLessEq rt (numZero rt) (snd e))"
  proof -
    from h have step: "numLessEq rt x (numAdd rt x y) \<and> numLessEq rt (numZero rt) (numAdd rt x y)"
      if "numLessEq rt (numZero rt) x" "numLessEq rt (numZero rt) y" for x y
      using that by blast
    from h have start: "numLessEq rt (numZero rt) (numZero rt)" by blast
    from h have "\<forall>x\<in>set (map snd ?sorted). numLessEq rt (numZero rt) x" by simp
    with step start
    have "nonDecreasingBy (numLessEq rt)
            (runningSums (numAdd rt) (numZero rt) (map snd ?sorted))"
      by (rule runningSums_nonDecreasing)
    then show ?thesis by simp
  qed
  show "\<exists>chart. crisisChart rt tickets = Inr chart
          \<and> sorted (map fst (sort_key fst entries))
          \<and> runningCounts chart = [1 ..< Suc (length entries)]
          \<and> runningTotals chart
              = runningSums (numAdd rt) (numZero rt) (map snd (sort_key fst entries))
          \<and> length (runningTotals chart) = length entries
          \<and> ((\<forall>t\<in>set (runningTotals chart). numIsFinite rt t)
               \<longrightarrow> emittedTotals rt chart = map Some (runningTotals chart))
          \<and> (numLessEq rt (numZero rt) (numZero rt)
               \<and> (\<forall>x y. numLessEq rt (numZero rt) x \<and> numLessEq rt (numZero rt) y
                      \<longrightarrow> numLessEq rt x (numAdd rt x y)
                          \<and> numLessEq rt (numZero rt) (numAdd rt x y))
               \<and> (\<forall>e\<in>set entries. numLessEq rt (numZero rt) (snd e))
               \<longrightarrow> nonDecreasingBy (numLessEq rt) (runningTotals chart))"
  proof (intro exI [of _ ?chart] conjI impI)
    show "crisisChart rt tickets = Inr ?chart" by (rule built)
    show "sorted (map fst ?sorted)" by (rule ordered)
    show "runningCounts ?chart = [1 ..< Suc (length entries)]" by simp
    show "runningTotals ?chart = runningSums (numAdd rt) (numZero rt) (map snd ?sorted)"
      by simp
    show "length (runningTotals ?chart) = length entries" by (rule len)
    show "emittedTotals rt ?chart = map Some (runningTotals ?chart)"
      if "\<forall>t\<in>set (runningTotals ?chart). numIsFinite rt t"
      using that by (rule emitted)
    show "nonDecreasingBy (numLessEq rt) (runningTotals ?chart)"
      if "numLessEq rt (numZero rt) (numZero rt)
          \<and> (\<forall>x y. numLessEq rt (numZero rt) x \<and> numLessEq rt (numZero rt) y
                 \<longrightarrow> numLessEq rt x (numAdd rt x y)
                     \<and> numLessEq rt (numZero rt) (numAdd rt x y))
          \<and> (\<forall>e\<in>set entries. numLessEq rt (numZero rt) (snd e))"
      using that by (rule mono)
  qed
qed

lemma sampleCrisis_data:
  "crisisData sampleRuntime sampleCrisis
     = [(Some 1718098200000, Some (25 / 2)), (Some 1717848000000, Some 100)]"
  by (simp add: crisisData_def collectCrisis_def sampleCrisis_def ticketOf_def bag_def
        sampleRuntime_def Let_def)

lemma sample_addition:
  "numLessEq sampleRuntime (numZero sampleRuntime) (numZero sampleRuntime)"
  "\<forall>x y. numLessEq sampleRuntime (numZero sampleRuntime) x
         \<and> numLessEq sampleRuntime (numZero sampleRuntime) y
         \<longrightarrow> numLessEq sampleRuntime x (numAdd sampleRuntime x y)
             \<and> numLessEq sampleRuntime (numZero sampleRuntime) (numAdd sampleRuntime x y)"
  by (auto simp: sampleRuntime_def split: option.splits)

theorem crisis_running_tally_witness:
  "validDates (crisisData sampleRuntime sampleCrisis)
     = Some [(1718098200000, Some (25 / 2)), (1717848000000, Some 100)]
   \<and> (\<exists>chart. crisisChart sampleRuntime sampleCrisis = Inr chart
          \<and> runningCounts chart = [1, 2]
          \<and> runningTotals chart = [Some 100, Some (225 / 2)]
          \<and> emittedTotals sampleRuntime chart = [Some (Some 100), Some (Some (225 / 2))]
          \<and> nonDecreasingBy (numLessEq sampleRuntime) (runningTotals chart))"
proof -
  let ?entries = "[(1718098200000, Some (25 / 2)), (1717848000000, Some 100)]
                    :: (int \<times> rat option) list"
  have valid: "validDates (crisisData sampleRuntime sampleCrisis) = Some ?entries"
    by (simp add: sampleCrisis_data)
  have nonneg: "\<forall>e\<in>set ?entries. numLessEq sampleRuntime (numZero sampleRuntime) (snd e)"
    by (simp add: sampleRuntime_def)
  from crisis_running_tally [of sampleRuntime sampleCrisis ?entries] valid
  obtain chart where c: "crisisChart sampleRuntime sampleCrisis = Inr chart"
    "runningCounts chart = [1 ..< Suc (length ?entries)]"
    "runningTotals chart
       = runningSums (numAdd sampleRuntime) (numZero sampleRuntime)
           (map snd (sort_key fst ?entries))"
    "(\<forall>t\<in>set (runningTotals chart). numIsFinite sampleRuntime t)
       \<longrightarrow> emittedTotals sampleRuntime chart = map Some (runningTotals chart)"
    "numLessEq sampleRuntime (numZero sampleRuntime) (numZero sampleRuntime)
       \<and> (\<forall>x y. numLessEq sampleRuntime (numZero sampleRuntime) x
              \<and> numLessEq sampleRuntime (numZero sampleRuntime) y
              \<longrightarrow> numLessEq sampleRuntime x (numAdd sampleRuntime x y)
                  \<and> numLessEq sampleRuntime (numZero sampleRuntime) (numAdd sampleRuntime x y))
       \<and> (\<forall>e\<in>set ?entries. numLessEq sampleRuntime (numZero sampleRuntime) (snd e))
       \<longrightarrow> nonDecreasingBy (numLessEq sampleRuntime) (runningTotals chart)"
    by blast
  from c(2) have counts: "runningCounts chart = [1, 2]"
    by (simp add: upt_rec)
  from c(3) have totals: "runningTotals chart = [Some 100, Some (225 / 2)]"
    by (simp add: sampleRuntime_def)
  then have "\<forall>t\<in>set (runningTotals chart). numIsFinite sampleRuntime t"
    by (simp add: sampleRuntime_def)
  with c(4) totals
  have emitted: "emittedTotals sampleRuntime chart = [Some (Some 100), Some (Some (225 / 2))]"
    by simp
  from c(5) sample_addition nonneg
  have "nonDecreasingBy (numLessEq sampleRuntime) (runningTotals chart)" by blast
  with valid c(1) counts totals emitted show ?thesis by blast
qed

text \<open>
  C3 as stated fails: with the amounts 100 (created first) and -40 the running totals
  are 100 and 60, a decrease.
\<close>

theorem running_total_decreases_counterexample:
  "\<exists>cs. generateCharts sampleRuntime sampleNow sampleNegative = Inr cs
      \<and> runningCounts (chart_crisis_wish_tracking cs) = [1, 2]
      \<and> runningTotals (chart_crisis_wish_tracking cs) = [Some 100, Some 60]
      \<and> emittedTotals sampleRuntime (chart_crisis_wish_tracking cs)
          = [Some (Some 100), Some (Some 60)]
      \<and> \<not> nonDecreasingBy (numLessEq sampleRuntime)
             (runningTotals (chart_crisis_wish_tracking cs))"
  by (simp add: generateCharts_def crisisChart_def crisisData_def collectCrisis_def
        emittedTotals_def sampleNegative_def ticketOf_def bag_def sampleRuntime_def Let_def)

section \<open>The service distribution\<close>

lemma firstSeen_snoc:
  "firstSeen (xs @ [x]) = (if x \<in> set xs then firstSeen xs else firstSeen xs @ [x])"
  by (simp add: firstSeen_def)

lemma set_firstSeen: "set (firstSeen xs) = set xs"
  by (simp add: firstSeen_def)

lemma distinct_firstSeen: "distinct (firstSeen xs)"
  by (simp add: firstSeen_def)

lemma keptServices_snoc:
  "keptServices (ts @ [t])
     = keptServices ts
       @ (case service_provided (properties t) of
            None \<Rightarrow> []
          | Some s \<Rightarrow> if s = [] \<or> s = ''null'' then [] else [s])"
  by (simp add: keptServices_def)

lemma serviceCounts_snoc: "serviceCounts (ts @ [t]) = countService t (serviceCounts ts)"
  by (simp add: serviceCounts_def)

lemma map_of_keyed:
  "map_of (map (\<lambda>k. (k, f k)) ks) s = (if s \<in> set ks then Some (f s) else None)"
  by (induction ks) auto

lemma setOwn_keyed_present:
  assumes "s \<in> set ks" "distinct ks"
  shows "setOwn (map (\<lambda>k. (k, f k)) ks) s v = map (\<lambda>k. (k, if k = s then v else f k)) ks"
  using assms
proof (induction ks)
  case Nil
  then show ?case by simp
next
  case (Cons k ks)
  show ?case
  proof (cases "k = s")
    case True
    with Cons.prems have "s \<notin> set ks" by simp
    then have "map (\<lambda>k. (k, if k = s then v else f k)) ks = map (\<lambda>k. (k, f k)) ks"
      by (intro map_cong) auto
    with True show ?thesis by simp
  next
    case False
    with Cons show ?thesis by simp
  qed
qed

lemma setOwn_keyed_absent:
  assumes "s \<notin> set ks"
  shows "setOwn (map (\<lambda>k. (k, f k)) ks) s v = map (\<lambda>k. (k, f k)) ks @ [(s, v)]"
  using assms by (induction ks) auto

lemma proto_key_not_inherited:
  assumes "s \<notin> set objectPrototypeKeys"
  shows "s \<noteq> ''__proto__''"
  using assms by (auto simp: objectPrototypeKeys_def)

text \<open>
  What one kept service does to a table that holds the counts so far, in first-seen
  order.
\<close>

lemma count_step:
  assumes "s \<notin> set objectPrototypeKeys"
  shows "setProp (map (\<lambda>k. (k, JNum (count_list ks k))) (firstSeen ks)) s
           (orZeroPlusOne (getProp (map (\<lambda>k. (k, JNum (count_list ks k))) (firstSeen ks)) s))
         = map (\<lambda>k. (k, JNum (count_list (ks @ [s]) k))) (firstSeen (ks @ [s]))"
proof (cases "s \<in> set ks")
  case True
  let ?table = "map (\<lambda>k. (k, JNum (count_list ks k))) (firstSeen ks)"
  have "getProp ?table s = Some (JNum (count_list ks s))"
    using True by (simp add: getProp_def map_of_keyed set_firstSeen)
  then have "setProp ?table s (orZeroPlusOne (getProp ?table s))
               = setOwn ?table s (JNum (count_list ks s + 1))"
    using proto_key_not_inherited [OF assms] by (simp add: setProp_def)
  also have "\<dots> = map (\<lambda>k. (k, if k = s then JNum (count_list ks s + 1)
                                   else JNum (count_list ks k))) (firstSeen ks)"
    using True by (intro setOwn_keyed_present) (simp_all add: set_firstSeen distinct_firstSeen)
  also have "\<dots> = map (\<lambda>k. (k, JNum (count_list (ks @ [s]) k))) (firstSeen ks)"
    by (intro map_cong) auto
  also have "\<dots> = map (\<lambda>k. (k, JNum (count_list (ks @ [s]) k))) (firstSeen (ks @ [s]))"
    using True by (simp only: firstSeen_snoc if_True)
  finally show ?thesis .
next
  case False
  let ?table = "map (\<lambda>k. (k, JNum (count_list ks k))) (firstSeen ks)"
  have "getProp ?table s = None"
    using False assms by (simp add: getProp_def map_of_keyed set_firstSeen)
  then have "setProp ?table s (orZeroPlusOne (getProp ?table s)) = setOwn ?table s (JNum 1)"
    using proto_key_not_inherited [OF assms] by (simp add: setProp_def)
  also have "\<dots> = ?table @ [(s, JNum 1)]"
    using False by (intro setOwn_keyed_absent) (simp add: set_firstSeen)
  also have "\<dots> = map (\<lambda>k. (k, JNum (count_list (ks @ [s]) k))) (firstSeen ks @ [s])"
  proof -
    have "?table = map (\<lambda>k. (k, JNum (count_list (ks @ [s]) k))) (firstSeen ks)"
      using False by (intro map_cong) (auto simp: set_firstSeen)
    moreover have "count_list (ks @ [s]) s = 1"
      using False by simp
    ultimately show ?thesis by (simp only: map_append list.map)
  qed
  also have "\<dots> = map (\<lambda>k. (k, JNum (count_list (ks @ [s]) k))) (firstSeen (ks @ [s]))"
    using False by (simp only: firstSeen_snoc if_False)
  finally show ?thesis .
qed

lemma serviceCounts_spec:
  assumes "\<forall>s\<in>set (keptServices ts). s \<notin> set objectPrototypeKeys"
  shows "serviceCounts ts
           = map (\<lambda>k. (k, JNum (count_list (keptServices ts) k))) (firstSeen (keptServices ts))"
  using assms
proof (induction ts rule: rev_induct)
  case Nil
  show ?case by (simp add: serviceCounts_def keptServices_def firstSeen_def)
next
  case (snoc t ts)
  let ?ks = "keptServices ts"
  from snoc.prems have "\<forall>s\<in>set ?ks. s \<notin> set objectPrototypeKeys"
    by (simp add: keptServices_snoc)
  then have IH: "serviceCounts ts = map (\<lambda>k. (k, JNum (count_list ?ks k))) (firstSeen ?ks)"
    by (rule snoc.IH)
  show ?case
  proof (cases "service_provided (properties t)")
    case None
    then show ?thesis
      by (simp add: serviceCounts_snoc countService_def keptServices_snoc IH)
  next
    case (Some s)
    show ?thesis
    proof (cases "s = [] \<or> s = ''null''")
      case True
      with Some show ?thesis
        by (auto simp: serviceCounts_snoc countService_def keptServices_snoc IH)
    next
      case False
      with Some have kept: "keptServices (ts @ [t]) = ?ks @ [s]"
        by (simp add: keptServices_snoc)
      with snoc.prems have "s \<notin> set objectPrototypeKeys" by simp
      then have "setProp (serviceCounts ts) s (orZeroPlusOne (getProp (serviceCounts ts) s))
                   = map (\<lambda>k. (k, JNum (count_list (?ks @ [s]) k))) (firstSeen (?ks @ [s]))"
        unfolding IH by (rule count_step)
      with Some False kept show ?thesis
        by (simp add: serviceCounts_snoc countService_def)
    qed
  qed
qed

lemma insort_key_map:
  "insort_key f (h x) (map h ys) = map h (insort_key (\<lambda>y. f (h y)) x ys)"
  by (induction ys) simp_all

lemma sort_key_map: "sort_key f (map h xs) = map h (sort_key (\<lambda>y. f (h y)) xs)"
  by (induction xs) (simp_all add: insort_key_map)

lemma objectEntries_keyed:
  "objectEntries (map (\<lambda>k. (k, F k)) ks)
     = map (\<lambda>k. (k, F k))
         (sort_key decimalValue (filter isArrayIndex ks) @ filter (\<lambda>k. \<not> isArrayIndex k) ks)"
  by (simp add: objectEntries_def filter_map comp_def sort_key_map)

text \<open>
  C4 (amended). For every ticket collection in which no kept service value is a
  property name of \<^verbatim>\<open>Object.prototype\<close>: a ticket whose \<^verbatim>\<open>service_provided\<close> is absent, the
  text \<^verbatim>\<open>null\<close> or empty contributes to no slice; every other distinct value yields
  exactly one slice, whose count is the number of its occurrences; and the slices are
  in the order of \<^verbatim>\<open>Object.keys\<close>: the values that are array indices (canonical decimal
  numerals below \<open>2^32 - 1\<close>) first, in ascending numeric order, then the other
  values in first-seen order. Without array-index values this is first-seen order.
\<close>

theorem service_distribution_slices:
  "(\<forall>s\<in>set (keptServices tickets). s \<notin> set objectPrototypeKeys) \<longrightarrow>
   (let ks = keptServices tickets;
        seen = firstSeen ks;
        labels = service_labels (serviceChart tickets)
    in labels = sort_key decimalValue (filter isArrayIndex seen)
                @ filter (\<lambda>k. \<not> isArrayIndex k) seen
       \<and> service_values (serviceChart tickets) = map (\<lambda>k. JNum (count_list ks k)) labels
       \<and> distinct labels
       \<and> set labels = set ks
       \<and> ((\<forall>k\<in>set ks. \<not> isArrayIndex k) \<longrightarrow> labels = seen))"
proof
  assume ok: "\<forall>s\<in>set (keptServices tickets). s \<notin> set objectPrototypeKeys"
  let ?ks = "keptServices tickets"
  let ?seen = "firstSeen ?ks"
  let ?order = "sort_key decimalValue (filter isArrayIndex ?seen)
                @ filter (\<lambda>k. \<not> isArrayIndex k) ?seen"
  have entries: "objectEntries (serviceCounts tickets)
                   = map (\<lambda>k. (k, JNum (count_list ?ks k))) ?order"
    unfolding serviceCounts_spec [OF ok] by (rule objectEntries_keyed)
  have labels: "service_labels (serviceChart tickets) = ?order"
    by (simp add: serviceChart_def objectKeys_def entries comp_def)
  have "values": "service_values (serviceChart tickets)
                  = map (\<lambda>k. JNum (count_list ?ks k)) ?order"
    by (simp add: serviceChart_def objectValues_def entries comp_def)
  have dist: "distinct ?order"
    using distinct_firstSeen [of ?ks] by auto
  have members: "set ?order = set ?ks"
    using set_firstSeen [of ?ks] by auto
  have plain: "?order = ?seen" if "\<forall>k\<in>set ?ks. \<not> isArrayIndex k"
  proof -
    from that have none: "\<forall>k\<in>set ?seen. \<not> isArrayIndex k" by (simp add: set_firstSeen)
    then have "filter isArrayIndex ?seen = []" by (simp add: filter_empty_conv)
    moreover from none have "filter (\<lambda>k. \<not> isArrayIndex k) ?seen = ?seen"
      by (simp add: filter_id_conv)
    ultimately show ?thesis by simp
  qed
  show "let ks = keptServices tickets;
            seen = firstSeen ks;
            labels = service_labels (serviceChart tickets)
        in labels = sort_key decimalValue (filter isArrayIndex seen)
                    @ filter (\<lambda>k. \<not> isArrayIndex k) seen
           \<and> service_values (serviceChart tickets) = map (\<lambda>k. JNum (count_list ks k)) labels
           \<and> distinct labels
           \<and> set labels = set ks
           \<and> ((\<forall>k\<in>set ks. \<not> isArrayIndex k) \<longrightarrow> labels = seen)"
    unfolding Let_def labels "values"
    using dist members plain by (intro conjI impI refl)
qed

lemma sampleServices_kept:
  "keptServices sampleServices = [''Housing'', ''Food'', ''Housing'', ''10'', ''9'']"
  by (simp add: keptServices_def sampleServices_def ticketOf_def bag_def)

theorem service_distribution_slices_witness:
  "keptServices sampleServices = [''Housing'', ''Food'', ''Housing'', ''10'', ''9'']
   \<and> service_labels (serviceChart sampleServices) = [''9'', ''10'', ''Housing'', ''Food'']
   \<and> service_values (serviceChart sampleServices) = [JNum 1, JNum 1, JNum 2, JNum 1]"
proof -
  have ok: "\<forall>s\<in>set (keptServices sampleServices). s \<notin> set objectPrototypeKeys"
    by (simp add: sampleServices_kept objectPrototypeKeys_def)
  have seen: "firstSeen [''Housing'', ''Food'', ''Housing'', ''10'', ''9'']
                = [''Housing'', ''Food'', ''10'', ''9'']"
    by (simp add: firstSeen_def)
  have idx: "isArrayIndex ''10''" "isArrayIndex ''9''" "\<not> isArrayIndex ''Housing''"
    "\<not> isArrayIndex ''Food''"
    by (simp_all add: isArrayIndex_def isDigit_def decimalValue_def)
  from service_distribution_slices [of sampleServices] ok
  have "service_labels (serviceChart sampleServices)
          = sort_key decimalValue (filter isArrayIndex (firstSeen (keptServices sampleServices)))
            @ filter (\<lambda>k. \<not> isArrayIndex k) (firstSeen (keptServices sampleServices))"
    and "service_values (serviceChart sampleServices)
          = map (\<lambda>k. JNum (count_list (keptServices sampleServices) k))
              (service_labels (serviceChart sampleServices))"
    unfolding Let_def by blast+
  then show ?thesis
    by (simp add: sampleServices_kept seen idx decimalValue_def)
qed

text \<open>
  C4 as stated fails on the order: with the services \<^verbatim>\<open>b\<close> and then \<^verbatim>\<open>1\<close>, the slice
  of \<^verbatim>\<open>1\<close> comes first, although \<^verbatim>\<open>b\<close> was seen first.
\<close>

theorem service_order_counterexample:
  "firstSeen (keptServices sampleOrder) = [''b'', ''1'']
   \<and> service_labels (serviceChart sampleOrder) = [''1'', ''b'']
   \<and> service_labels (serviceChart sampleOrder) \<noteq> firstSeen (keptServices sampleOrder)"
  by (simp add: firstSeen_def keptServices_def sampleOrder_def ticketOf_def bag_def
        serviceChart_def serviceCounts_def countService_def setProp_def getProp_def
        objectPrototypeKeys_def objectKeys_def objectEntries_def isArrayIndex_def isDigit_def
        decimalValue_def)

section \<open>A failed fetch\<close>











end
